theory Spec2Isabelle
  imports Main "HOL-Library.Word"
begin

section \<open>Data of the binding\<close>

type_synonym u32 = "32 word"
type_synonym byte = "8 word"

text \<open>
  A Go function either returns or panics. A panic inside an exported callback is not
  recovered anywhere in the binding, so it is the outcome of the whole call.
\<close>

datatype 'a go_result = Panics | Returns 'a

text \<open>
  The Go expression \<^verbatim>\<open>(*[1 << 20]T)(p)[0:n]\<close>: the pointer is viewed as an array of
  \<open>2 ^ 20\<close> elements and sliced. Go checks the upper bound against the array length and
  panics beyond it; otherwise the slice has length \<open>n\<close> and shows the memory at \<open>p\<close>,
  which is modelled as a function from offsets to elements.
\<close>

definition array_slice :: "(nat \<Rightarrow> 'a) \<Rightarrow> nat \<Rightarrow> 'a list go_result" where
  "array_slice p n = (if n \<le> 2 ^ 20 then Returns (map p [0..<n]) else Panics)"

text \<open>
  Modelled from the spec: the declaration of \<^verbatim>\<open>FormatType\<close> and the native function
  \<^verbatim>\<open>mal_get_bytes_per_sample\<close> are not part of the binding's source. The spec lists the
  formats unsigned-8, signed-16, signed-24, signed-32 and float-32 and says that the byte
  width is a pure function of the format.
\<close>

datatype FormatType = FormatU8 | FormatS16 | FormatS24 | FormatS32 | FormatF32

fun mal_get_bytes_per_sample :: "FormatType \<Rightarrow> u32" where
  "mal_get_bytes_per_sample FormatU8 = 1"
| "mal_get_bytes_per_sample FormatS16 = 2"
| "mal_get_bytes_per_sample FormatS24 = 3"
| "mal_get_bytes_per_sample FormatS32 = 4"
| "mal_get_bytes_per_sample FormatF32 = 4"

text \<open>
  Modelled from the spec: the declaration of \<^verbatim>\<open>DeviceType\<close> is missing; the spec names
  the kinds Playback and Capture. The Go type is an integer, so other values exist.
\<close>

datatype DeviceType = Playback | Capture | OtherType u32

text \<open>
  Modelled from the spec: \<^verbatim>\<open>Result\<close> and \<^verbatim>\<open>errorFromResult\<close> are declared in a file that
  is missing. The kinds are the error taxonomy of the spec; \<^verbatim>\<open>Success\<close> is the value the
  source compares with. A Go \<^verbatim>\<open>error\<close> is \<open>None\<close> for nil.
\<close>

datatype Result = Success | NoBackendAvailable | InvalidConfig | NotInitialized
  | DeviceBusy | BackendError int | EnumerationFailed

fun errorFromResult :: "Result \<Rightarrow> Result option" where
  "errorFromResult Success = None"
| "errorFromResult v = Some v"

text \<open>
  Modelled from the spec: the state of a native device is kept inside the native library,
  which is missing. These are the states of the spec's device state machine (\<open>Stopped\<close>
  is its Initialized state: initialized and not started).
\<close>

datatype dev_state = Uninitialized | Stopped | Started

text \<open>
  Modelled from the spec: the steps of the native library that the spec makes observable
  through a fake backend that records the order of its calls: the send callback is called
  for a number of frames, the send callback has returned a number of frames, the hardware
  playback or capture begins, the stream is stopped, the stream resources are released.
\<close>

datatype backend_event = SendRequested u32 | SendReturned u32 | PlaybackBegins
  | CaptureBegins | StreamStopped | ResourcesReleased

text \<open>
  Modelled from the spec: the declaration of the native \<^verbatim>\<open>mal_device\<close> is missing. The
  binding's source reads its fields \<^verbatim>\<open>_type\<close>, \<^verbatim>\<open>format\<close>, \<^verbatim>\<open>channels\<close> and
  \<^verbatim>\<open>sampleRate\<close>; the others follow the spec: the lifecycle state, the size of the
  transfer buffer in frames with the memory behind it, and the record of a fake backend (how
  often the stream resources were released, and the order of its steps).
\<close>

record mal_device =
  dev_type :: DeviceType
  format :: FormatType
  channels :: u32
  sampleRate :: u32
  state :: dev_state
  bufferSizeInFrames :: u32
  buffer :: "nat \<Rightarrow> byte"
  free_count :: nat
  events :: "backend_event list"

text \<open>
  The Go \<^verbatim>\<open>Device\<close>: its fields \<^verbatim>\<open>context\<close> and \<^verbatim>\<open>device\<close> are two C pointers,
  modelled as addresses.
\<close>

record Device =
  context_ptr :: nat
  device_ptr :: nat

text \<open>
  \<^verbatim>\<open>DeviceID\<close> is a byte array of the size of the native identifier; \<^verbatim>\<open>DeviceInfo\<close>
  and \<^verbatim>\<open>DeviceConfig\<close> are the Go structs with their fields (a C pointer is an address,
  the types of the share mode and of the performance profile are integers).
\<close>

type_synonym DeviceID = "byte list"

record DeviceInfo =
  ID :: DeviceID
  Name :: "byte list"
  FormatCount :: u32
  Formats :: "u32 list"
  MinChannels :: u32
  MaxChannels :: u32
  MinSampleRate :: u32
  MaxSampleRate :: u32

record AlsaDeviceConfig =
  NoMMap :: u32

record PulseDeviceConfig =
  StreamName :: nat

record DeviceConfig =
  Format :: FormatType
  Channels :: u32
  SampleRate :: u32
  ChannelMap :: "byte list"
  BufferSizeInFrames :: u32
  Periods :: u32
  ShareMode :: u32
  PerformanceProfile :: u32
  OnRecvCallback :: nat
  OnSendCallback :: nat
  OnStopCallback :: nat
  Alsa :: AlsaDeviceConfig
  Pulse :: PulseDeviceConfig

text \<open>
  The handler types. A handler is application code with effects of its own; \<open>'s\<close> is all
  the state it can read and write, the bytes behind the slice it is given included.
\<close>

type_synonym 's RecvProc = "u32 \<Rightarrow> byte list \<Rightarrow> 's \<Rightarrow> 's"
type_synonym 's SendProc = "u32 \<Rightarrow> byte list \<Rightarrow> 's \<Rightarrow> u32 \<times> 's"
type_synonym 's StopProc = "'s \<Rightarrow> 's"
type_synonym 's LogProc = "string \<Rightarrow> 's \<Rightarrow> 's"

text \<open>
  The state of the program: the four package-level handler variables of the binding
  (\<open>None\<close> is a nil function value), the native devices by address, and the application's
  state.
\<close>

record 's world =
  recvHandler :: "'s RecvProc option"
  sendHandler :: "'s SendProc option"
  stopHandler :: "'s StopProc option"
  logHandler :: "'s LogProc option"
  native :: "nat \<Rightarrow> mal_device"
  client :: 's

section \<open>The callback router\<close>

definition goRecvCallback :: "nat \<Rightarrow> u32 \<Rightarrow> (nat \<Rightarrow> byte) \<Rightarrow> 's world \<Rightarrow> 's world go_result" where
  "goRecvCallback pDevice frameCount pSamples w =
     (case recvHandler w of
        None \<Rightarrow> Returns w
      | Some h \<Rightarrow>
          (let sampleCount = frameCount * channels (native w pDevice);
               sizeInBytes = mal_get_bytes_per_sample (format (native w pDevice))
           in case array_slice pSamples (unat (sampleCount * sizeInBytes)) of
                Panics \<Rightarrow> Panics
              | Returns psamples \<Rightarrow>
                  Returns (w\<lparr>client := h frameCount psamples (client w)\<rparr>)))"

definition goSendCallback ::
  "nat \<Rightarrow> u32 \<Rightarrow> (nat \<Rightarrow> byte) \<Rightarrow> 's world \<Rightarrow> (u32 \<times> 's world) go_result" where
  "goSendCallback pDevice frameCount pSamples w =
     (case sendHandler w of
        None \<Rightarrow> Returns (0, w)
      | Some h \<Rightarrow>
          (let sampleCount = frameCount * channels (native w pDevice);
               sizeInBytes = mal_get_bytes_per_sample (format (native w pDevice))
           in case array_slice pSamples (unat (sampleCount * sizeInBytes)) of
                Panics \<Rightarrow> Panics
              | Returns psamples \<Rightarrow>
                  (case h frameCount psamples (client w) of
                     (r, s') \<Rightarrow> Returns (r, w\<lparr>client := s'\<rparr>))))"

definition goStopCallback :: "nat \<Rightarrow> 's world \<Rightarrow> 's world" where
  "goStopCallback pDevice w =
     (case stopHandler w of
        None \<Rightarrow> w
      | Some h \<Rightarrow> w\<lparr>client := h (client w)\<rparr>)"

text \<open>
  The byte extent \<open>F * C * B\<close> of a callback, as a natural number: frames times the
  device's channel count times the byte width of its format.
\<close>

definition extent :: "'s world \<Rightarrow> nat \<Rightarrow> u32 \<Rightarrow> nat" where
  "extent w pDevice frameCount =
     unat frameCount * unat (channels (native w pDevice))
       * unat (mal_get_bytes_per_sample (format (native w pDevice)))"

text \<open>
  The byte count that both callbacks compute for the slice, \<^verbatim>\<open>sampleCount*sizeInBytes\<close>
  in \<^verbatim>\<open>uint32\<close> arithmetic: the extent modulo \<open>2 ^ 32\<close>.
\<close>

definition slice_bytes :: "'s world \<Rightarrow> nat \<Rightarrow> u32 \<Rightarrow> nat" where
  "slice_bytes w pDevice frameCount =
     unat (frameCount * channels (native w pDevice)
       * mal_get_bytes_per_sample (format (native w pDevice)))"

section \<open>Registering handlers\<close>

text \<open>
  Each setter assigns the package-level variable and then calls a C helper
  (\<^verbatim>\<open>goSetRecvCallback\<close> and its siblings) on the native device. The helpers are not part
  of the binding's source: each setter takes its helper as the first argument, a function on
  the native devices. The setters have no result.
\<close>

definition SetRecvCallback ::
  "(nat \<Rightarrow> (nat \<Rightarrow> mal_device) \<Rightarrow> (nat \<Rightarrow> mal_device))
    \<Rightarrow> Device \<Rightarrow> 's RecvProc option \<Rightarrow> 's world \<Rightarrow> 's world" where
  "SetRecvCallback goSetRecvCallback d proc w =
     (let w1 = w\<lparr>recvHandler := proc\<rparr>
      in w1\<lparr>native := goSetRecvCallback (device_ptr d) (native w1)\<rparr>)"

definition SetSendCallback ::
  "(nat \<Rightarrow> (nat \<Rightarrow> mal_device) \<Rightarrow> (nat \<Rightarrow> mal_device))
    \<Rightarrow> Device \<Rightarrow> 's SendProc option \<Rightarrow> 's world \<Rightarrow> 's world" where
  "SetSendCallback goSetSendCallback d proc w =
     (let w1 = w\<lparr>sendHandler := proc\<rparr>
      in w1\<lparr>native := goSetSendCallback (device_ptr d) (native w1)\<rparr>)"

definition SetStopCallback ::
  "(nat \<Rightarrow> (nat \<Rightarrow> mal_device) \<Rightarrow> (nat \<Rightarrow> mal_device))
    \<Rightarrow> Device \<Rightarrow> 's StopProc option \<Rightarrow> 's world \<Rightarrow> 's world" where
  "SetStopCallback goSetStopCallback d proc w =
     (let w1 = w\<lparr>stopHandler := proc\<rparr>
      in w1\<lparr>native := goSetStopCallback (device_ptr d) (native w1)\<rparr>)"

definition SetLogCallback :: "Device \<Rightarrow> 's LogProc option \<Rightarrow> 's world \<Rightarrow> 's world" where
  "SetLogCallback d proc w = w\<lparr>logHandler := proc\<rparr>"

section \<open>Enumerating devices\<close>

text \<open>
  What the native \<^verbatim>\<open>mal_context_get_devices\<close> hands back: its result, the two counts it
  wrote, and the memory at \<^verbatim>\<open>&pinfo[0]\<close> and \<^verbatim>\<open>&cinfo[0]\<close> after the call, read as
  pointer slots (\<open>None\<close> is a nil pointer, \<open>Some info\<close> points to a native device info).
  The native function is not part of the binding's source and is the first argument of
  \<open>Devices\<close>.
\<close>

record get_devices_out =
  ret :: Result
  pinfo :: "nat \<Rightarrow> DeviceInfo option"
  pcount :: u32
  cinfo :: "nat \<Rightarrow> DeviceInfo option"
  ccount :: u32

text \<open>The loop over \<^verbatim>\<open>tmp\<close>: every pointer that is not nil is copied and appended.\<close>

fun append_infos :: "DeviceInfo list \<Rightarrow> DeviceInfo option list \<Rightarrow> DeviceInfo list" where
  "append_infos res [] = res"
| "append_infos res (d # tmp) =
     (case d of
        None \<Rightarrow> append_infos res tmp
      | Some info \<Rightarrow> append_infos (res @ [info]) tmp)"

text \<open>
  The result is the pair of the Go function: the slice (a nil slice is the empty list)
  and the error.
\<close>

definition Devices ::
  "(nat \<Rightarrow> get_devices_out) \<Rightarrow> Device \<Rightarrow> DeviceType
    \<Rightarrow> (DeviceInfo list \<times> Result option) go_result" where
  "Devices mal_context_get_devices d kind =
     (let out = mal_context_get_devices (context_ptr d); v = ret out
      in if v = Success then
           (if kind = Playback then
              (case array_slice (pinfo out) (unat (pcount out)) of
                 Panics \<Rightarrow> Panics
               | Returns tmp \<Rightarrow> Returns (append_infos [] tmp, None))
            else if kind = Capture then
              (case array_slice (cinfo out) (unat (ccount out)) of
                 Panics \<Rightarrow> Panics
               | Returns tmp \<Rightarrow> Returns (append_infos [] tmp, None))
            else Returns ([], None))
         else Returns ([], errorFromResult v))"

section \<open>Initializing a device\<close>

text \<open>
  \<^verbatim>\<open>cptr\<close> casts a Go pointer to the C pointer type without reading through it, so it is
  defined on the nil pointer (\<open>None\<close>) too and keeps it nil.
\<close>

definition DeviceID_cptr :: "DeviceID option \<Rightarrow> DeviceID option" where
  "DeviceID_cptr d = d"

definition DeviceConfig_cptr :: "DeviceConfig option \<Rightarrow> DeviceConfig option" where
  "DeviceConfig_cptr d = d"

text \<open>
  The native \<^verbatim>\<open>mal_device_init\<close> is not part of the binding's source and is the first
  argument: it gets the context, the kind, the identifier, the config, the user data (always
  nil) and the device, and returns its result with the new state.
\<close>

definition Init ::
  "(nat \<Rightarrow> DeviceType \<Rightarrow> DeviceID option \<Rightarrow> DeviceConfig option \<Rightarrow> nat option \<Rightarrow> nat
      \<Rightarrow> 'w \<Rightarrow> Result \<times> 'w)
    \<Rightarrow> Device \<Rightarrow> DeviceType \<Rightarrow> DeviceID option \<Rightarrow> DeviceConfig option
    \<Rightarrow> 'w \<Rightarrow> Result option \<times> 'w" where
  "Init mal_device_init d kind pdeviceid pconfig w =
     (let ckind = kind;
          cpdeviceid = DeviceID_cptr pdeviceid;
          cpconfig = DeviceConfig_cptr pconfig
      in case mal_device_init (context_ptr d) ckind cpdeviceid cpconfig None (device_ptr d) w of
           (v, w') \<Rightarrow> (errorFromResult v, w'))"

section \<open>The native device lifecycle\<close>

text \<open>
  Modelled from the spec: the native library is missing. Two steps of its model: a step is
  added to the record of the device at an address, and the lifecycle state of that device
  is set.
\<close>

definition log_event :: "nat \<Rightarrow> backend_event \<Rightarrow> 's world \<Rightarrow> 's world" where
  "log_event p e w =
     w\<lparr>native := (native w)(p := (native w p)\<lparr>events := events (native w p) @ [e]\<rparr>)\<rparr>"

definition set_state :: "nat \<Rightarrow> dev_state \<Rightarrow> 's world \<Rightarrow> 's world" where
  "set_state p st w = w\<lparr>native := (native w)(p := (native w p)\<lparr>state := st\<rparr>)\<rparr>"

text \<open>
  Modelled from the spec: the native \<^verbatim>\<open>mal_device_start\<close> is missing. Start fails with
  NotInitialized before Init and with DeviceBusy when already started, changing nothing.
  Otherwise, for a Playback device, it pulls one full buffer of initial samples through the
  exported send callback, and only when that call has returned the hardware playback begins;
  then the device is started. The fake backend records the call, its return with the frames
  the callback reported, and the begin of the playback, each when it happens.
\<close>

definition mal_device_start :: "nat \<Rightarrow> 's world \<Rightarrow> (Result \<times> 's world) go_result" where
  "mal_device_start p w =
     (case state (native w p) of
        Uninitialized \<Rightarrow> Returns (NotInitialized, w)
      | Started \<Rightarrow> Returns (DeviceBusy, w)
      | Stopped \<Rightarrow>
          (if dev_type (native w p) = Playback then
             (let n = bufferSizeInFrames (native w p)
              in case goSendCallback p n (buffer (native w p)) (log_event p (SendRequested n) w) of
                   Panics \<Rightarrow> Panics
                 | Returns (r, w') \<Rightarrow>
                     Returns (Success, set_state p Started
                       (log_event p PlaybackBegins (log_event p (SendReturned r) w'))))
           else if dev_type (native w p) = Capture then
             Returns (Success, set_state p Started (log_event p CaptureBegins w))
           else Returns (Success, set_state p Started w)))"

text \<open>
  Modelled from the spec: releasing the stream resources is a step of the missing native
  library. The fake backend counts it, records it, and the device is uninitialized.
\<close>

definition release :: "nat \<Rightarrow> 's world \<Rightarrow> 's world" where
  "release p w =
     set_state p Uninitialized
       (log_event p ResourcesReleased
          (w\<lparr>native := (native w)(p := (native w p)\<lparr>free_count := Suc (free_count (native w p))\<rparr>)\<rparr>))"

text \<open>
  Modelled from the spec: the native \<^verbatim>\<open>mal_device_uninit\<close> is missing. Uninit is safe in
  every state: it stops a started device (the stop callback runs once when the stream
  leaves the started state), releases the stream resources of an initialized device, and
  does nothing on an uninitialized one.
\<close>

definition mal_device_uninit :: "nat \<Rightarrow> 's world \<Rightarrow> 's world" where
  "mal_device_uninit p w =
     (case state (native w p) of
        Uninitialized \<Rightarrow> w
      | Stopped \<Rightarrow> release p w
      | Started \<Rightarrow>
          release p (goStopCallback p (set_state p Stopped (log_event p StreamStopped w))))"

section \<open>Starting and uninitializing through the binding\<close>

definition Start :: "Device \<Rightarrow> 's world \<Rightarrow> (Result option \<times> 's world) go_result" where
  "Start d w =
     (case mal_device_start (device_ptr d) w of
        Panics \<Rightarrow> Panics
      | Returns (v, w') \<Rightarrow> Returns (errorFromResult v, w'))"

definition Uninit :: "Device \<Rightarrow> 's world \<Rightarrow> 's world" where
  "Uninit d w = mal_device_uninit (device_ptr d) w"

section \<open>Concrete devices and programs\<close>

definition stereo_device :: "FormatType \<Rightarrow> dev_state \<Rightarrow> u32 \<Rightarrow> mal_device" where
  "stereo_device fmt st n =
     \<lparr>dev_type = Playback, format = fmt, channels = 2, sampleRate = 44100, state = st,
      bufferSizeInFrames = n, buffer = (\<lambda>i. 0), free_count = 0, events = []\<rparr>"

text \<open>
  An application whose state is one number: its recv handler stores the length of the
  buffer it was given, its send handler stores that length and reports one frame less than it
  was asked for, its stop handler stores 99.
\<close>

definition probe_world :: "mal_device \<Rightarrow> nat world" where
  "probe_world dev =
     \<lparr>recvHandler = Some (\<lambda>f buf s. length buf),
      sendHandler = Some (\<lambda>f buf s. (f - 1, length buf)),
      stopHandler = Some (\<lambda>s. 99),
      logHandler = None,
      native = (\<lambda>a. dev),
      client = 0\<rparr>"

definition silent_world :: "mal_device \<Rightarrow> nat world" where
  "silent_world dev =
     \<lparr>recvHandler = None, sendHandler = None, stopHandler = None, logHandler = None,
      native = (\<lambda>a. dev), client = 0\<rparr>"

text \<open>The same application started on its stereo signed-16 device with a buffer of 3 frames.\<close>

definition started_probe :: "nat world" where
  "started_probe =
     set_state 2 Started (log_event 2 PlaybackBegins (log_event 2 (SendReturned 2)
       ((log_event 2 (SendRequested 3) (probe_world (stereo_device FormatS16 Stopped 3)))
          \<lparr>client := 12\<rparr>)))"

text \<open>Two Go devices on different native devices.\<close>

definition the_device :: Device where
  "the_device = \<lparr>context_ptr = 1, device_ptr = 2\<rparr>"

definition other_device :: Device where
  "other_device = \<lparr>context_ptr = 1, device_ptr = 3\<rparr>"

text \<open>What the application has stored after a callback, if the callback returned.\<close>

definition seen :: "'s world go_result \<Rightarrow> 's option" where
  "seen res = (case res of Panics \<Rightarrow> None | Returns w \<Rightarrow> Some (client w))"

text \<open>A backend with one capture device and no playback device.\<close>

definition mic_info :: DeviceInfo where
  "mic_info = \<lparr>ID = [1, 2, 3], Name = [109, 105, 99], FormatCount = 1, Formats = [2],
     MinChannels = 1, MaxChannels = 2, MinSampleRate = 8000, MaxSampleRate = 48000\<rparr>"

definition capture_only_backend :: "nat \<Rightarrow> get_devices_out" where
  "capture_only_backend ctx =
     \<lparr>ret = Success, pinfo = (\<lambda>i. None), pcount = 0,
      cinfo = (\<lambda>i. if i = 0 then Some mic_info else None), ccount = 1\<rparr>"

text \<open>
  A native init that succeeds and records the identifier it was given; its state is the
  list of the identifiers so far.
\<close>

definition recording_init ::
  "nat \<Rightarrow> DeviceType \<Rightarrow> DeviceID option \<Rightarrow> DeviceConfig option \<Rightarrow> nat option \<Rightarrow> nat
    \<Rightarrow> DeviceID option list \<Rightarrow> Result \<times> DeviceID option list" where
  "recording_init ctx kind devid cfg userdata dev asked = (Success, asked @ [devid])"

section \<open>Arithmetic of the byte extent\<close>

lemma unat_extent:
  assumes "unat (F::u32) * unat (C::u32) * unat (B::u32) \<le> 2 ^ 20"
  shows "unat (F * C * B) = unat F * unat C * unat B"
proof -
  have "unat (F * C * B) = (unat F * unat C * unat B) mod 2 ^ 32"
    by (simp add: unat_word_ariths mod_mult_left_eq)
  moreover have "unat F * unat C * unat B < 2 ^ 32" using assms by simp
  ultimately show ?thesis by simp
qed

lemma extent_fits:
  assumes "extent w p F \<le> 2 ^ 20"
  shows "unat (F * channels (native w p) * mal_get_bytes_per_sample (format (native w p)))
    = extent w p F"
  using assms unat_extent unfolding extent_def by blast

lemma goRecvCallback_fits:
  assumes "extent w p F \<le> 2 ^ 20" and "recvHandler w = Some h"
  shows "goRecvCallback p F mem w
    = Returns (w\<lparr>client := h F (map mem [0..<extent w p F]) (client w)\<rparr>)"
  using assms extent_fits [OF assms(1)]
  by (simp add: goRecvCallback_def array_slice_def)

lemma goSendCallback_fits:
  assumes "extent w p F \<le> 2 ^ 20" and "sendHandler w = Some h"
  shows "goSendCallback p F mem w
    = Returns (fst (h F (map mem [0..<extent w p F]) (client w)),
        w\<lparr>client := snd (h F (map mem [0..<extent w p F]) (client w))\<rparr>)"
  using assms extent_fits [OF assms(1)]
  by (simp add: goSendCallback_def array_slice_def split: prod.splits)

lemma extent_probe: "extent (probe_world (stereo_device FormatS16 st n)) p 3 = 12"
  by (simp add: extent_def probe_world_def stereo_device_def)

text \<open>
  The Send callback in terms of the byte count it computes: within the view the handler
  is called on that many bytes and its count is the result, beyond it the slice panics.
\<close>

lemma goSendCallback_sliced:
  assumes "sendHandler w = Some h" and "slice_bytes w p F \<le> 2 ^ 20"
  shows "goSendCallback p F mem w
    = Returns (fst (h F (map mem [0..<slice_bytes w p F]) (client w)),
        w\<lparr>client := snd (h F (map mem [0..<slice_bytes w p F]) (client w))\<rparr>)"
proof (cases "h F (map mem [0..<slice_bytes w p F]) (client w)")
  case (Pair r s')
  with assms show ?thesis
    by (simp add: goSendCallback_def array_slice_def slice_bytes_def)
qed

lemma goSendCallback_overrun:
  assumes "sendHandler w = Some h" and "2 ^ 20 < slice_bytes w p F"
  shows "goSendCallback p F mem w = Panics"
  using assms by (simp add: goSendCallback_def array_slice_def slice_bytes_def)

lemma slice_bytes_extent: "slice_bytes w p F = extent w p F mod 2 ^ 32"
  by (simp add: slice_bytes_def extent_def unat_word_ariths mod_mult_left_eq mod_mult_right_eq)

lemma slice_bytes_log_event: "slice_bytes (log_event q e w) p F = slice_bytes w p F"
  by (simp add: slice_bytes_def log_event_def)

lemma slice_bytes_probe: "slice_bytes (probe_world (stereo_device FormatS16 st n)) p 3 = 12"
  by (simp add: slice_bytes_def probe_world_def stereo_device_def)

section \<open>The router's buffer and frame-count arithmetic\<close>

text \<open>
  C1 (as amended). For a Recv or Send callback with frame count \<open>F\<close> on a device with
  \<open>C\<close> channels and a format of \<open>B\<close> bytes per sample, whenever \<open>F * C * B\<close> is at most
  \<open>2 ^ 20\<close> (the size of the array the router views the backend's pointer as), the
  registered handler is called with \<open>F\<close> and with a buffer of exactly \<open>F * C * B\<close> bytes,
  the first \<open>F * C * B\<close> bytes at the pointer. The device, and so its format, is arbitrary:
  this holds for each FormatType.
\<close>

theorem router_buffer_extent:
  assumes "extent w p F \<le> 2 ^ 20"
  shows "length (map mem [0..<extent w p F]) = extent w p F
    \<and> (recvHandler w = Some hr \<longrightarrow>
         goRecvCallback p F mem w
           = Returns (w\<lparr>client := hr F (map mem [0..<extent w p F]) (client w)\<rparr>))
    \<and> (sendHandler w = Some hs \<longrightarrow>
         goSendCallback p F mem w
           = Returns (fst (hs F (map mem [0..<extent w p F]) (client w)),
               w\<lparr>client := snd (hs F (map mem [0..<extent w p F]) (client w))\<rparr>))"
  by (simp add: goRecvCallback_fits [OF assms] goSendCallback_fits [OF assms])

text \<open>
  Three stereo frames of signed-16 samples: both handlers of the probe application see a
  buffer of 12 bytes.
\<close>

theorem router_buffer_extent_witness:
  "extent (probe_world (stereo_device FormatS16 Started 3)) 7 3 \<le> 2 ^ 20
   \<and> extent (probe_world (stereo_device FormatS16 Started 3)) 7 3 = 12
   \<and> goRecvCallback 7 3 (\<lambda>i. 0) (probe_world (stereo_device FormatS16 Started 3))
       = Returns ((probe_world (stereo_device FormatS16 Started 3))\<lparr>client := 12\<rparr>)
   \<and> goSendCallback 7 3 (\<lambda>i. 0) (probe_world (stereo_device FormatS16 Started 3))
       = Returns (2, (probe_world (stereo_device FormatS16 Started 3))\<lparr>client := 12\<rparr>)"
proof -
  let ?w = "probe_world (stereo_device FormatS16 Started 3)"
  have h: "extent ?w 7 3 \<le> 2 ^ 20" by (simp add: extent_probe)
  have r: "recvHandler ?w = Some (\<lambda>f buf s. length buf)"
    and s: "sendHandler ?w = Some (\<lambda>f buf s. (f - 1, length buf))"
    by (simp_all add: probe_world_def)
  from router_buffer_extent [OF h, of "\<lambda>i. 0" "\<lambda>f buf s. length buf" "\<lambda>f buf s. (f - 1, length buf)"]
  show ?thesis using h r s by (simp add: extent_probe)
qed

text \<open>
  The claim as stated fails for a large buffer: 262144 stereo frames of float-32 samples
  are 2097152 bytes, more than the array view holds, and both callbacks panic on the slice
  before any handler is called.
\<close>

theorem router_buffer_extent_counterexample:
  "extent (probe_world (stereo_device FormatF32 Started 262144)) 7 262144 = 2097152
   \<and> goRecvCallback 7 262144 (\<lambda>i. 0) (probe_world (stereo_device FormatF32 Started 262144)) = Panics
   \<and> goSendCallback 7 262144 (\<lambda>i. 0) (probe_world (stereo_device FormatF32 Started 262144)) = Panics"
  by (simp add: extent_def probe_world_def stereo_device_def goRecvCallback_def
      goSendCallback_def array_slice_def)

text \<open>
  C2 (as amended). For every invocation of the Send callback with a registered send
  handler in which the byte count the router computes for the buffer, \<open>F * C * B\<close> in
  32-bit arithmetic, is at most \<open>2 ^ 20\<close> (the size of the array the router views the
  backend's pointer as), the handler is called, and the frame count \<open>r\<close> it returns is the
  callback's return value, unmodified, whatever \<open>r\<close> is: a handler that returns fewer
  frames than requested does not make the router panic.
\<close>

theorem send_frames_forwarded:
  assumes "sendHandler w = Some h" and "slice_bytes w p F \<le> 2 ^ 20"
    and "h F (map mem [0..<slice_bytes w p F]) (client w) = (r, s')"
  shows "goSendCallback p F mem w = Returns (r, w\<lparr>client := s'\<rparr>)"
  using goSendCallback_sliced [OF assms(1) assms(2), of mem] assms(3) by simp

text \<open>
  Two underruns. Asked for 3 stereo signed-16 frames, the probe's send handler reports 2.
  Asked for 2147483649 stereo unsigned-8 frames, the router computes 2 bytes (the product
  wraps around), the handler is called on them and reports 2147483648.
\<close>

theorem send_frames_forwarded_witness:
  "sendHandler (probe_world (stereo_device FormatS16 Started 3))
       = Some (\<lambda>f buf s. (f - 1, length buf))
   \<and> slice_bytes (probe_world (stereo_device FormatS16 Started 3)) 7 3 \<le> 2 ^ 20
   \<and> (2::u32) < 3
   \<and> goSendCallback 7 3 (\<lambda>i. 0) (probe_world (stereo_device FormatS16 Started 3))
       = Returns (2, (probe_world (stereo_device FormatS16 Started 3))\<lparr>client := 12\<rparr>)
   \<and> slice_bytes (probe_world (stereo_device FormatU8 Started 3)) 7 2147483649 = 2
   \<and> (2147483648::u32) < 2147483649
   \<and> goSendCallback 7 2147483649 (\<lambda>i. 0) (probe_world (stereo_device FormatU8 Started 3))
       = Returns (2147483648, (probe_world (stereo_device FormatU8 Started 3))\<lparr>client := 2\<rparr>)"
proof -
  let ?w = "probe_world (stereo_device FormatS16 Started 3)"
  let ?v = "probe_world (stereo_device FormatU8 Started 3)"
  have s: "sendHandler ?w = Some (\<lambda>f buf s. (f - 1, length buf))"
    and t: "sendHandler ?v = Some (\<lambda>f buf s. (f - 1, length buf))"
    by (simp_all add: probe_world_def)
  have h: "slice_bytes ?w 7 3 \<le> 2 ^ 20" by (simp add: slice_bytes_probe)
  have e: "slice_bytes ?v 7 2147483649 = 2"
    by (simp add: slice_bytes_def probe_world_def stereo_device_def)
  have k: "slice_bytes ?v 7 2147483649 \<le> 2 ^ 20" by (simp add: e)
  have c: "(\<lambda>f buf s. (f - 1, length buf)) (3::u32)
      (map (\<lambda>i. 0::byte) [0..<slice_bytes ?w 7 3]) (client ?w) = (2, 12)"
    by (simp add: slice_bytes_probe)
  have d: "(\<lambda>f buf s. (f - 1, length buf)) (2147483649::u32)
      (map (\<lambda>i. 0::byte) [0..<slice_bytes ?v 7 2147483649]) (client ?v) = (2147483648, 2)"
    by (simp add: e)
  from send_frames_forwarded [OF s h c] send_frames_forwarded [OF t k d]
  show ?thesis using s h e by simp
qed

text \<open>
  The claim as stated, for every invocation, fails: the probe's send handler is registered
  and would report an underrun, but for 262144 stereo float-32 frames the router computes
  2097152 bytes, the slice panics, the handler is not called and no frame count reaches the
  backend.
\<close>

theorem send_frames_forwarded_counterexample:
  "sendHandler (probe_world (stereo_device FormatF32 Started 262144))
       = Some (\<lambda>f buf s. (f - 1, length buf))
   \<and> slice_bytes (probe_world (stereo_device FormatF32 Started 262144)) 7 262144 = 2097152
   \<and> goSendCallback 7 262144 (\<lambda>i. 0) (probe_world (stereo_device FormatF32 Started 262144))
       = Panics"
  by (simp add: slice_bytes_def probe_world_def stereo_device_def goSendCallback_def
      array_slice_def)

text \<open>
  C10. A callback that arrives while the handler of its kind is nil is a no-op: the Recv
  and the Stop callback leave the state as it is, the Send callback returns 0 frames, and
  none of them panics, whatever the frame count and the device.
\<close>

theorem nil_handler_is_noop:
  "(recvHandler w = None \<longrightarrow> goRecvCallback p F mem w = Returns w)
   \<and> (sendHandler w = None \<longrightarrow> goSendCallback p F mem w = Returns (0, w))
   \<and> (stopHandler w = None \<longrightarrow> goStopCallback p w = w)"
  by (simp add: goRecvCallback_def goSendCallback_def goStopCallback_def)

theorem nil_handler_is_noop_witness:
  "recvHandler (silent_world (stereo_device FormatF32 Started 262144)) = None
   \<and> sendHandler (silent_world (stereo_device FormatF32 Started 262144)) = None
   \<and> stopHandler (silent_world (stereo_device FormatF32 Started 262144)) = None
   \<and> goRecvCallback 7 262144 (\<lambda>i. 0) (silent_world (stereo_device FormatF32 Started 262144))
       = Returns (silent_world (stereo_device FormatF32 Started 262144))
   \<and> goSendCallback 7 262144 (\<lambda>i. 0) (silent_world (stereo_device FormatF32 Started 262144))
       = Returns (0, silent_world (stereo_device FormatF32 Started 262144))
   \<and> goStopCallback 7 (silent_world (stereo_device FormatF32 Started 262144))
       = silent_world (stereo_device FormatF32 Started 262144)"
proof -
  let ?w = "silent_world (stereo_device FormatF32 Started 262144)"
  have n: "recvHandler ?w = None" "sendHandler ?w = None" "stopHandler ?w = None"
    by (simp_all add: silent_world_def)
  from nil_handler_is_noop [of ?w 7 262144 "\<lambda>i. 0"] show ?thesis using n by simp
qed

section \<open>Enumeration\<close>

text \<open>
  C6. When the native enumeration succeeds and reports no device of the requested kind
  (count 0 for Playback, or count 0 for Capture), \<open>Devices\<close> returns the empty sequence and
  the nil error.
\<close>

theorem no_devices_is_empty:
  assumes "ret (g (context_ptr d)) = Success"
    and "kind = Playback \<and> pcount (g (context_ptr d)) = 0
       \<or> kind = Capture \<and> ccount (g (context_ptr d)) = 0"
  shows "Devices g d kind = Returns ([], None)"
  using assms by (auto simp: Devices_def array_slice_def Let_def)

text \<open>A backend with a microphone and no playback device, asked for playback devices.\<close>

theorem no_devices_is_empty_witness:
  "ret (capture_only_backend (context_ptr the_device)) = Success
   \<and> pcount (capture_only_backend (context_ptr the_device)) = 0
   \<and> Devices capture_only_backend the_device Playback = Returns ([], None)"
proof -
  have a: "ret (capture_only_backend (context_ptr the_device)) = Success"
    and b: "pcount (capture_only_backend (context_ptr the_device)) = 0"
    by (simp_all add: capture_only_backend_def)
  from no_devices_is_empty [of capture_only_backend the_device Playback] a b
  show ?thesis by simp
qed

section \<open>Handler slots\<close>

text \<open>
  C7 (as amended). The binding holds at most one recv handler, one send handler and one
  stop handler, in package-level slots that all devices share. A call of SetRecvCallback,
  SetSendCallback or SetStopCallback, on any device and in any state of it (started
  included), has no error result and replaces the handler of its kind with the one given;
  the handlers of the other two kinds stay.
\<close>

theorem handlers_are_package_level:
  "recvHandler (SetRecvCallback c d pr w) = pr
   \<and> sendHandler (SetRecvCallback c d pr w) = sendHandler w
   \<and> stopHandler (SetRecvCallback c d pr w) = stopHandler w
   \<and> sendHandler (SetSendCallback c d ps w) = ps
   \<and> recvHandler (SetSendCallback c d ps w) = recvHandler w
   \<and> stopHandler (SetSendCallback c d ps w) = stopHandler w
   \<and> stopHandler (SetStopCallback c d pt w) = pt
   \<and> recvHandler (SetStopCallback c d pt w) = recvHandler w
   \<and> sendHandler (SetStopCallback c d pt w) = sendHandler w"
  by (simp add: SetRecvCallback_def SetSendCallback_def SetStopCallback_def)

text \<open>Unregistering the recv handler of the started probe application.\<close>

theorem handlers_are_package_level_witness:
  "recvHandler (SetRecvCallback (\<lambda>p n. n) the_device None started_probe) = None
   \<and> stopHandler (SetRecvCallback (\<lambda>p n. n) the_device None started_probe)
       = stopHandler started_probe"
  using handlers_are_package_level [of "\<lambda>p n. n" the_device None started_probe]
  by simp

text \<open>
  The claim as stated fails. The device is started and its recv handler stores the buffer
  length, 12. A SetRecvCallback on that device is not rejected: the next Recv callback runs
  the new handler, which stores 1000. The same happens when the setter is called on another
  Go device with another native device: the slot is not per device.
\<close>

theorem handlers_are_package_level_counterexample:
  "state (native (probe_world (stereo_device FormatS16 Started 3)) (device_ptr the_device)) = Started
   \<and> seen (goRecvCallback (device_ptr the_device) 3 (\<lambda>i. 0)
        (probe_world (stereo_device FormatS16 Started 3))) = Some 12
   \<and> seen (goRecvCallback (device_ptr the_device) 3 (\<lambda>i. 0)
        (SetRecvCallback (\<lambda>p n. n) the_device (Some (\<lambda>f buf s. 1000))
          (probe_world (stereo_device FormatS16 Started 3)))) = Some 1000
   \<and> device_ptr other_device \<noteq> device_ptr the_device
   \<and> seen (goRecvCallback (device_ptr the_device) 3 (\<lambda>i. 0)
        (SetRecvCallback (\<lambda>p n. n) other_device (Some (\<lambda>f buf s. 1000))
          (probe_world (stereo_device FormatS16 Started 3)))) = Some 1000"
  by (simp add: seen_def goRecvCallback_def SetRecvCallback_def probe_world_def
      stereo_device_def the_device_def other_device_def array_slice_def)

section \<open>The default device\<close>

text \<open>
  C8. \<open>Init\<close> with a nil device identifier calls the native init with the null identifier,
  for every kind, config, device and native library: the cast keeps nil, the binding looks at
  no enumerated device, and the result is the native library's for the null identifier.
\<close>

theorem init_nil_id_passes_null:
  "DeviceID_cptr None = None
   \<and> Init mal_device_init d kind None pconfig w
       = (case mal_device_init (context_ptr d) kind None pconfig None (device_ptr d) w of
            (v, w') \<Rightarrow> (errorFromResult v, w'))"
  by (simp add: Init_def DeviceID_cptr_def DeviceConfig_cptr_def)

text \<open>The recording native init was asked for the null identifier, once.\<close>

theorem init_nil_id_passes_null_witness:
  "Init recording_init the_device Playback None None [] = (None, [None])"
  using init_nil_id_passes_null [of recording_init the_device Playback None "[]"]
  by (simp add: recording_init_def)

section \<open>The lifecycle\<close>

lemma errorFromResult_None: "errorFromResult v = None \<longleftrightarrow> v = Success"
  by (cases v) simp_all

lemma state_set_state: "state (native (set_state p st w) p) = st"
  by (simp add: set_state_def)

lemma mal_device_start_Uninitialized:
  "state (native w p) = Uninitialized \<Longrightarrow> mal_device_start p w = Returns (NotInitialized, w)"
  by (simp add: mal_device_start_def)

lemma mal_device_start_Started:
  "state (native w p) = Started \<Longrightarrow> mal_device_start p w = Returns (DeviceBusy, w)"
  by (simp add: mal_device_start_def)

lemma mal_device_start_Success:
  assumes "mal_device_start p w = Returns (Success, w1)"
  shows "state (native w1 p) = Started"
proof (cases "state (native w p)")
  case Uninitialized
  with assms show ?thesis by (simp add: mal_device_start_def)
next
  case Started
  with assms show ?thesis by (simp add: mal_device_start_def)
next
  case Stopped
  with assms show ?thesis
    by (auto simp: mal_device_start_def Let_def state_set_state
        split: if_splits go_result.splits prod.splits)
qed

lemma mal_device_start_Playback:
  assumes "state (native w p) = Stopped" and "dev_type (native w p) = Playback"
    and "sendHandler w = Some h"
    and "slice_bytes w p (bufferSizeInFrames (native w p)) \<le> 2 ^ 20"
    and "h (bufferSizeInFrames (native w p))
           (map (buffer (native w p))
              [0..<slice_bytes w p (bufferSizeInFrames (native w p))]) (client w) = (r, s')"
  shows "mal_device_start p w
    = Returns (Success, set_state p Started (log_event p PlaybackBegins
        (log_event p (SendReturned r)
          ((log_event p (SendRequested (bufferSizeInFrames (native w p))) w)
             \<lparr>client := s'\<rparr>))))"
proof -
  let ?n = "bufferSizeInFrames (native w p)"
  let ?w0 = "log_event p (SendRequested ?n) w"
  have e: "slice_bytes ?w0 p ?n \<le> 2 ^ 20"
    using assms(4) by (simp add: slice_bytes_log_event)
  have s: "sendHandler ?w0 = Some h" using assms(3) by (simp add: log_event_def)
  have c: "client ?w0 = client w" by (simp add: log_event_def)
  show ?thesis
    using assms(1,2,5) goSendCallback_sliced [OF s e, of "buffer (native w p)"]
    by (simp add: mal_device_start_def Let_def slice_bytes_log_event c)
qed

lemma mal_device_start_overrun:
  assumes "state (native w p) = Stopped" and "dev_type (native w p) = Playback"
    and "sendHandler w = Some h"
    and "2 ^ 20 < slice_bytes w p (bufferSizeInFrames (native w p))"
  shows "mal_device_start p w = Panics"
proof -
  let ?n = "bufferSizeInFrames (native w p)"
  let ?w0 = "log_event p (SendRequested ?n) w"
  have e: "2 ^ 20 < slice_bytes ?w0 p ?n"
    using assms(4) by (simp add: slice_bytes_log_event)
  have s: "sendHandler ?w0 = Some h" using assms(3) by (simp add: log_event_def)
  show ?thesis
    using assms(1,2) goSendCallback_overrun [OF s e, of "buffer (native w p)"]
    by (simp add: mal_device_start_def Let_def)
qed

lemma state_release: "state (native (release p w) p) = Uninitialized"
  by (simp add: release_def state_set_state)

lemma state_mal_device_uninit: "state (native (mal_device_uninit p w) p) = Uninitialized"
  by (cases "state (native w p)") (simp_all add: mal_device_uninit_def state_release)

lemma mal_device_uninit_again:
  "state (native w p) = Uninitialized \<Longrightarrow> mal_device_uninit p w = w"
  by (simp add: mal_device_uninit_def)

lemma free_count_mal_device_uninit:
  "free_count (native (mal_device_uninit p w) p)
     = free_count (native w p) + (if state (native w p) = Uninitialized then 0 else 1)"
  by (cases "state (native w p)")
    (simp_all add: mal_device_uninit_def release_def set_state_def log_event_def
      goStopCallback_def split: option.splits)

lemma events_mal_device_uninit:
  "events (native (mal_device_uninit p w) p)
     = events (native w p)
        @ (case state (native w p) of
             Uninitialized \<Rightarrow> []
           | Stopped \<Rightarrow> [ResourcesReleased]
           | Started \<Rightarrow> [StreamStopped, ResourcesReleased])"
  by (cases "state (native w p)")
    (simp_all add: mal_device_uninit_def release_def set_state_def log_event_def
      goStopCallback_def split: option.splits)

lemma start_probe:
  "Start the_device (probe_world (stereo_device FormatS16 Stopped 3)) = Returns (None, started_probe)"
proof -
  let ?w = "probe_world (stereo_device FormatS16 Stopped 3)"
  have a: "state (native ?w 2) = Stopped" "dev_type (native ?w 2) = Playback"
    "sendHandler ?w = Some (\<lambda>f buf s. (f - 1, length buf))"
    and n: "bufferSizeInFrames (native ?w 2) = 3"
    by (simp_all add: probe_world_def stereo_device_def)
  have e: "slice_bytes ?w 2 (bufferSizeInFrames (native ?w 2)) \<le> 2 ^ 20"
    by (simp add: n slice_bytes_probe)
  have c: "(\<lambda>f buf s. (f - 1, length buf)) (bufferSizeInFrames (native ?w 2))
      (map (buffer (native ?w 2)) [0..<slice_bytes ?w 2 (bufferSizeInFrames (native ?w 2))])
      (client ?w) = (2, 12)"
    by (simp add: n slice_bytes_probe)
  show ?thesis
    using mal_device_start_Playback [OF a e c]
    by (simp add: Start_def the_device_def started_probe_def n)
qed

text \<open>
  C3. \<open>Start\<close> on a device that is uninitialized (no Init since its creation or its last
  Uninit) returns the NotInitialized error and changes nothing: the device stays
  uninitialized, no handler runs and the backend records no step.
\<close>

theorem start_before_init_fails:
  assumes "state (native w (device_ptr d)) = Uninitialized"
  shows "Start d w = Returns (Some NotInitialized, w)"
  using assms by (simp add: Start_def mal_device_start_Uninitialized)

theorem start_before_init_fails_witness:
  "state (native (probe_world (stereo_device FormatS16 Uninitialized 3)) (device_ptr the_device))
     = Uninitialized
   \<and> Start the_device (probe_world (stereo_device FormatS16 Uninitialized 3))
     = Returns (Some NotInitialized, probe_world (stereo_device FormatS16 Uninitialized 3))"
proof -
  have u: "state (native (probe_world (stereo_device FormatS16 Uninitialized 3))
      (device_ptr the_device)) = Uninitialized"
    by (simp add: probe_world_def stereo_device_def)
  from start_before_init_fails [OF u] u show ?thesis by simp
qed

text \<open>
  C4. After a \<open>Start\<close> that succeeded the device is started, and a second \<open>Start\<close> with
  no Stop in between returns the DeviceBusy error and leaves the whole state, the started
  device included, as it was.
\<close>

theorem start_twice_is_busy:
  assumes "Start d w = Returns (None, w1)"
  shows "state (native w1 (device_ptr d)) = Started
    \<and> Start d w1 = Returns (Some DeviceBusy, w1)"
proof -
  from assms have "mal_device_start (device_ptr d) w = Returns (Success, w1)"
    by (auto simp: Start_def errorFromResult_None split: go_result.splits prod.splits)
  then have st: "state (native w1 (device_ptr d)) = Started"
    by (rule mal_device_start_Success)
  then show ?thesis
    by (simp add: Start_def mal_device_start_Started)
qed

theorem start_twice_is_busy_witness:
  "Start the_device (probe_world (stereo_device FormatS16 Stopped 3)) = Returns (None, started_probe)
   \<and> state (native started_probe (device_ptr the_device)) = Started
   \<and> Start the_device started_probe = Returns (Some DeviceBusy, started_probe)"
  using start_twice_is_busy [OF start_probe] start_probe by simp




text \<open>
  C5. \<open>Uninit\<close> has no error result and is defined in every state. Afterwards the device
  is uninitialized; a started device is stopped first and then released, an initialized one
  is released, an uninitialized one is left alone. A second \<open>Uninit\<close> right after changes
  nothing, so after both calls the stream resources have been released once (and not at all
  if the device was uninitialized before).
\<close>

theorem uninit_safe_and_idempotent:
  "state (native (Uninit d w) (device_ptr d)) = Uninitialized
   \<and> Uninit d (Uninit d w) = Uninit d w
   \<and> free_count (native (Uninit d (Uninit d w)) (device_ptr d))
       = free_count (native w (device_ptr d))
          + (if state (native w (device_ptr d)) = Uninitialized then 0 else 1)
   \<and> events (native (Uninit d w) (device_ptr d))
       = events (native w (device_ptr d))
          @ (case state (native w (device_ptr d)) of
               Uninitialized \<Rightarrow> []
             | Stopped \<Rightarrow> [ResourcesReleased]
             | Started \<Rightarrow> [StreamStopped, ResourcesReleased])"
  by (simp add: Uninit_def state_mal_device_uninit mal_device_uninit_again
      free_count_mal_device_uninit events_mal_device_uninit)

text \<open>The started probe application: stopped (its stop handler stores 99), released once.\<close>

theorem uninit_safe_and_idempotent_witness:
  "state (native (Uninit the_device started_probe) (device_ptr the_device)) = Uninitialized
   \<and> Uninit the_device (Uninit the_device started_probe) = Uninit the_device started_probe
   \<and> free_count (native (Uninit the_device (Uninit the_device started_probe))
        (device_ptr the_device)) = 1
   \<and> events (native (Uninit the_device started_probe) (device_ptr the_device))
       = [SendRequested 3, SendReturned 2, PlaybackBegins, StreamStopped, ResourcesReleased]
   \<and> client (Uninit the_device started_probe) = 99"
proof -
  have a: "state (native started_probe (device_ptr the_device)) = Started"
    "free_count (native started_probe (device_ptr the_device)) = 0"
    "events (native started_probe (device_ptr the_device))
       = [SendRequested 3, SendReturned 2, PlaybackBegins]"
    by (simp_all add: started_probe_def the_device_def set_state_def log_event_def
        probe_world_def stereo_device_def)
  have c: "client (Uninit the_device started_probe) = 99"
    by (simp add: Uninit_def mal_device_uninit_def started_probe_def the_device_def
        set_state_def log_event_def release_def goStopCallback_def
        probe_world_def stereo_device_def)
  from uninit_safe_and_idempotent [of the_device started_probe] a c
  show ?thesis by auto
qed

end
